theory Spec2Isabelle
  imports Main
begin

section \<open>The schema of stream/video/models.py\<close>

text \<open>
  The repository is a Django schema: classes of fields with their options. A model
  class is embedded as a record of its columns, a \<^verbatim>\<open>TextChoices\<close> class as a datatype
  with its \<^verbatim>\<open>value\<close> and \<^verbatim>\<open>label\<close>, a field default as the value the constructor
  fills in, a field's \<^verbatim>\<open>choices\<close> and \<^verbatim>\<open>max_length\<close> as the check that
  \<^verbatim>\<open>Field.clean\<close> runs for them, and \<^verbatim>\<open>unique_together\<close> as the check an insert or
  update of the table runs.
\<close>

type_synonym uuid = nat
type_synonym user_id = nat
type_synonym datetime = nat

subsection \<open>Video.Status and Video.Visibility\<close>

datatype Status = UPLOADING | PROCESSING | READY | FAILED

datatype Visibility = PUBLIC | UNLISTED | PRIVATE

fun Status_value :: "Status \<Rightarrow> string" where
  "Status_value UPLOADING = ''uploading''"
| "Status_value PROCESSING = ''processing''"
| "Status_value READY = ''ready''"
| "Status_value FAILED = ''failed''"


fun Visibility_value :: "Visibility \<Rightarrow> string" where
  "Visibility_value PUBLIC = ''public''"
| "Visibility_value UNLISTED = ''unlisted''"
| "Visibility_value PRIVATE = ''private''"

fun Visibility_label :: "Visibility \<Rightarrow> string" where
  "Visibility_label PUBLIC = ''Public''"
| "Visibility_label UNLISTED = ''Unlisted''"
| "Visibility_label PRIVATE = ''Private''"


definition Visibility_choices :: "(string \<times> string) list" where
  "Visibility_choices =
     map (\<lambda>m. (Visibility_value m, Visibility_label m)) [PUBLIC, UNLISTED, PRIVATE]"

subsection \<open>The columns of Video\<close>

text \<open>
  \<open>pk\<close> is the source's \<^verbatim>\<open>id\<close>. A nullable column is an option; a date and a duration
  are numbers of ticks. \<^verbatim>\<open>status\<close> and \<^verbatim>\<open>visibility\<close> are \<^verbatim>\<open>CharField\<close>s: the column
  holds a string, and the choices are what validation compares it with.
\<close>

record Video =
  pk :: uuid
  user :: user_id
  title :: string
  description :: string
  thumbnail :: "string option"
  original_file :: "string option"
  duration :: "nat option"
  width :: "int option"
  height :: "int option"
  file_size :: "int option"
  status :: string
  visibility :: string
  processing_progress :: int
  error_message :: string
  comments_count :: int
  created_at :: datetime
  updated_at :: datetime
  published_at :: "datetime option"

text \<open>
  \<^verbatim>\<open>Video.objects.create(id=i, user=u, title=t)\<close> at time \<open>now\<close>, with or without
  \<^verbatim>\<open>visibility=vis\<close>: every field that is not supplied takes its declared default
  (\<^verbatim>\<open>Status.UPLOADING\<close>, \<^verbatim>\<open>Visibility.PUBLIC\<close>, 0), the empty string for a text field
  without one, NULL for a nullable field; \<^verbatim>\<open>auto_now_add\<close> and \<^verbatim>\<open>auto_now\<close> stamp the two
  dates.
\<close>

definition Video_create :: "datetime \<Rightarrow> uuid \<Rightarrow> user_id \<Rightarrow> string \<Rightarrow> string option \<Rightarrow> Video" where
  "Video_create now i u t vis =
     \<lparr> pk = i, user = u, title = t, description = [],
       thumbnail = None, original_file = None, duration = None,
       width = None, height = None, file_size = None,
       status = Status_value UPLOADING,
       visibility = (case vis of None \<Rightarrow> Visibility_value PUBLIC | Some x \<Rightarrow> x),
       processing_progress = 0,
       error_message = [],
       comments_count = 0,
       created_at = now, updated_at = now,
       published_at = None \<rparr>"

text \<open>\<^verbatim>\<open>updated_at = DateTimeField(auto_now=True)\<close>: every save of the row stamps it.\<close>

definition Video_save :: "datetime \<Rightarrow> Video \<Rightarrow> Video" where
  "Video_save now v = v\<lparr>updated_at := now\<rparr>"

subsection \<open>Field validation\<close>

text \<open>
  Validation is \<^verbatim>\<open>full_clean\<close>, which a form calls; \<^verbatim>\<open>save\<close> and \<^verbatim>\<open>create\<close> do not call
  it (see the next subsection).
\<close>

datatype ValidationError = InvalidChoice | Blank | MaxLength | MinValue | MaxValue | Invalid

text \<open>
  \<^verbatim>\<open>Field.clean\<close> of a \<^verbatim>\<open>CharField(max_length=n, choices=cs, blank=b)\<close>: a non-empty
  value must be the key of a choice when choices are given, an empty value needs
  \<^verbatim>\<open>blank=True\<close>, and a non-empty value is held to the maximal length.
\<close>

definition CharField_clean ::
  "nat \<Rightarrow> (string \<times> string) list option \<Rightarrow> bool \<Rightarrow> string \<Rightarrow> ValidationError + string" where
  "CharField_clean max_len cs blank_ok s =
     (if s \<noteq> [] \<and> (case cs of None \<Rightarrow> False | Some kvs \<Rightarrow> s \<notin> set (map fst kvs))
        then Inl InvalidChoice
      else if s = [] \<and> \<not> blank_ok then Inl Blank
      else if s \<noteq> [] \<and> max_len < length s then Inl MaxLength
      else Inr s)"



definition visibility_clean :: "string \<Rightarrow> ValidationError + string" where
  "visibility_clean = CharField_clean 20 (Some Visibility_choices) False"


subsection \<open>Saving a Video\<close>

text \<open>
  The types of the columns as declared: \<^verbatim>\<open>CharField(max_length=n)\<close> is a
  \<open>varchar(n)\<close>, \<^verbatim>\<open>IntegerField\<close> a 32-bit integer, \<^verbatim>\<open>BigIntegerField\<close> a 64-bit
  integer, \<^verbatim>\<open>TextField\<close> unbounded. A backend that enforces them refuses any other value
  with \<^verbatim>\<open>DataError\<close>; a backend that stores more (SQLite) stores these values too.
  (A string here is a list of bytes; for ASCII text its length is the number of
  characters the column counts.)
\<close>

datatype DatabaseError = IntegrityError | DataError







subsection \<open>Tables with a unique\_together constraint\<close>

text \<open>
  A table is the list of its rows in insertion order. \<^verbatim>\<open>unique_together = [a, b]\<close> is a
  unique index on the pair of columns: a statement that would leave two rows with the
  same pair fails with \<^verbatim>\<open>IntegrityError\<close> and leaves the table as it was.
\<close>

definition unique_together :: "('r \<Rightarrow> 'k) \<Rightarrow> 'r list \<Rightarrow> bool" where
  "unique_together key tbl = distinct (map key tbl)"

definition next_id :: "('r \<Rightarrow> nat) \<Rightarrow> 'r list \<Rightarrow> nat" where
  "next_id rid tbl = Suc (fold max (map rid tbl) 0)"

subsection \<open>VideoQuality\<close>

text \<open>
  \<open>vq_id\<close> is the \<^verbatim>\<open>id\<close> column Django adds to a model without a primary key; the
  columns \<^verbatim>\<open>video\<close>, \<^verbatim>\<open>width\<close>, \<^verbatim>\<open>height\<close>, \<^verbatim>\<open>file_size\<close> and \<^verbatim>\<open>created_at\<close> carry the
  prefix \<open>vq_\<close> to keep them apart from the columns of Video.
\<close>

record VideoQuality =
  vq_id :: nat
  vq_video :: uuid
  quality_name :: string
  vq_width :: int
  vq_height :: int
  bitrate :: string
  file_path :: string
  hls_playlist_path :: string
  vq_file_size :: "int option"
  vq_created_at :: datetime

text \<open>\<^verbatim>\<open>unique_together = ['video', 'quality_name']\<close>\<close>

definition VideoQuality_key :: "VideoQuality \<Rightarrow> uuid \<times> string" where
  "VideoQuality_key r = (vq_video r, quality_name r)"

definition VideoQuality_unique :: "VideoQuality list \<Rightarrow> bool" where
  "VideoQuality_unique tbl = unique_together VideoQuality_key tbl"

text \<open>A table of the database: the primary key is unique, and so is the declared pair.\<close>

definition VideoQuality_table_ok :: "VideoQuality list \<Rightarrow> bool" where
  "VideoQuality_table_ok tbl = (distinct (map vq_id tbl) \<and> VideoQuality_unique tbl)"

text \<open>
  The four statements the model class gives on its table: the insert of a new row
  (which gets the next id), the update of the row with a given id, the delete of the
  row with a given id, and the cascade that deletes the rows of a deleted Video
  (\<^verbatim>\<open>on_delete=CASCADE\<close>).
\<close>

definition VideoQuality_insert ::
  "VideoQuality \<Rightarrow> VideoQuality list \<Rightarrow> DatabaseError + VideoQuality list" where
  "VideoQuality_insert r tbl =
     (if VideoQuality_key r \<in> set (map VideoQuality_key tbl) then Inl IntegrityError
      else Inr (tbl @ [r\<lparr>vq_id := next_id vq_id tbl\<rparr>]))"

definition VideoQuality_update ::
  "nat \<Rightarrow> VideoQuality \<Rightarrow> VideoQuality list \<Rightarrow> DatabaseError + VideoQuality list" where
  "VideoQuality_update i r tbl =
     (if VideoQuality_key r \<in> set (map VideoQuality_key (filter (\<lambda>x. vq_id x \<noteq> i) tbl))
        then Inl IntegrityError
      else Inr (map (\<lambda>x. if vq_id x = i then r\<lparr>vq_id := i\<rparr> else x) tbl))"

definition VideoQuality_delete :: "nat \<Rightarrow> VideoQuality list \<Rightarrow> VideoQuality list" where
  "VideoQuality_delete i tbl = filter (\<lambda>x. vq_id x \<noteq> i) tbl"

definition VideoQuality_cascade :: "uuid \<Rightarrow> VideoQuality list \<Rightarrow> VideoQuality list" where
  "VideoQuality_cascade v tbl = filter (\<lambda>x. vq_video x \<noteq> v) tbl"

datatype VideoQuality_statement =
    Insert VideoQuality
  | Update nat VideoQuality
  | Delete nat
  | DeleteVideo uuid

fun VideoQuality_execute ::
  "VideoQuality_statement \<Rightarrow> VideoQuality list \<Rightarrow> DatabaseError + VideoQuality list" where
  "VideoQuality_execute (Insert r) tbl = VideoQuality_insert r tbl"
| "VideoQuality_execute (Update i r) tbl = VideoQuality_update i r tbl"
| "VideoQuality_execute (Delete i) tbl = Inr (VideoQuality_delete i tbl)"
| "VideoQuality_execute (DeleteVideo v) tbl = Inr (VideoQuality_cascade v tbl)"

text \<open>
  Statements of several clients reach the table in some order, each one atomic; a
  statement that fails changes nothing and the later ones still run. Every interleaving
  of concurrent writers is such a list.
\<close>

fun VideoQuality_run :: "VideoQuality_statement list \<Rightarrow> VideoQuality list \<Rightarrow> VideoQuality list" where
  "VideoQuality_run [] tbl = tbl"
| "VideoQuality_run (st # sts) tbl =
     (case VideoQuality_execute st tbl of
        Inl e \<Rightarrow> VideoQuality_run sts tbl
      | Inr tbl' \<Rightarrow> VideoQuality_run sts tbl')"

subsection \<open>PlaylistVideo\<close>

record PlaylistVideo =
  pv_id :: nat
  playlist :: uuid
  pv_video :: uuid
  pv_order :: int
  added_at :: datetime

text \<open>\<^verbatim>\<open>unique_together = ['playlist', 'video']\<close>\<close>

definition PlaylistVideo_key :: "PlaylistVideo \<Rightarrow> uuid \<times> uuid" where
  "PlaylistVideo_key r = (playlist r, pv_video r)"

definition PlaylistVideo_unique :: "PlaylistVideo list \<Rightarrow> bool" where
  "PlaylistVideo_unique tbl = unique_together PlaylistVideo_key tbl"

definition PlaylistVideo_insert ::
  "PlaylistVideo \<Rightarrow> PlaylistVideo list \<Rightarrow> DatabaseError + PlaylistVideo list" where
  "PlaylistVideo_insert r tbl =
     (if PlaylistVideo_key r \<in> set (map PlaylistVideo_key tbl) then Inl IntegrityError
      else Inr (tbl @ [r\<lparr>pv_id := next_id pv_id tbl\<rparr>]))"

fun PlaylistVideo_insert_all :: "PlaylistVideo list \<Rightarrow> PlaylistVideo list \<Rightarrow> PlaylistVideo list" where
  "PlaylistVideo_insert_all [] tbl = tbl"
| "PlaylistVideo_insert_all (r # rs) tbl =
     (case PlaylistVideo_insert r tbl of
        Inl e \<Rightarrow> PlaylistVideo_insert_all rs tbl
      | Inr tbl' \<Rightarrow> PlaylistVideo_insert_all rs tbl')"

section \<open>The Ingestion Coordinator\<close>

text \<open>
  The source declares the fields \<^verbatim>\<open>status\<close>, \<^verbatim>\<open>processing_progress\<close>, \<^verbatim>\<open>error_message\<close>
  and \<^verbatim>\<open>published_at\<close> and has no code of its own that writes them. The component that does, the
  Ingestion Coordinator, is described in sections 4 to 7 of the specification only; the
  definitions of this section follow that text and act on the records of the schema above.
\<close>

text \<open>Modelled from the spec: the error taxonomy of section 7 (the source has no error
  type).\<close>

datatype IngestError = UnsupportedFormat | EncodingFailed | StorageUnavailable | StaleAttempt

text \<open>Modelled from the spec: one quality tier of the configuration of section 6,
  \<open>{label, width, height, bitrate, required}\<close> (the source has no tier configuration).\<close>

record Tier =
  tier_label :: string
  tier_width :: int
  tier_height :: int
  tier_bitrate :: nat
  required :: bool

text \<open>Modelled from the spec: what the Probe of section 4.1 returns when it succeeds,
  \<open>{duration, width, height, container_valid, file_size}\<close> (the source has no Probe).\<close>

record ProbeInfo =
  probe_duration :: nat
  probe_width :: int
  probe_height :: int
  container_valid :: bool
  probe_file_size :: int

text \<open>Modelled from the spec: the signals that reach the Coordinator for one video
  (sections 2, 4.3 and 6; the source has no Coordinator). The upload-complete signal
  carries the outcome of the Probe, a failure with its kind and its text. A worker's report
  carries the attempt generation of its task. \<open>ProgressWrite g p\<close> is the coalesced write of
  the aggregate \<open>p\<close> that the Coordinator computed from the workers' percent-complete
  callbacks; \<open>TierCompleted g r\<close> is the completion of the tier \<open>quality_name r\<close> with the
  descriptor \<open>r\<close>; \<open>TierFailed g l e\<close> is a failure of the worker of tier \<open>l\<close>;
  \<open>AllRequiredComplete g\<close> is the signal that all required tiers are complete; \<open>Resubmit\<close>
  is the user's resubmission.\<close>

datatype Event =
    UploadComplete "(IngestError \<times> string) + ProbeInfo"
  | ProgressWrite nat int
  | TierCompleted nat VideoQuality
  | TierFailed nat string IngestError
  | AllRequiredComplete nat
  | Resubmit

text \<open>Modelled from the spec: what the Coordinator holds for one video (sections 4.3 and
  5): the Video row, the table of renditions, the attempt generation, the tiers completed
  and permanently failed in this generation, and the retries each tier has used.\<close>

record Ingestion =
  video :: Video
  qualities :: "VideoQuality list"
  attempt_generation :: nat
  completed :: "string list"
  failed_tiers :: "string list"
  retries :: "string \<Rightarrow> nat"

text \<open>Modelled from the spec: the start of an ingestion, a Video row just created
  (section 3: created at upload start) beside the table of renditions as it is.\<close>

definition ingest_start :: "Video \<Rightarrow> VideoQuality list \<Rightarrow> Ingestion" where
  "ingest_start v tbl =
     \<lparr> video = v, qualities = tbl, attempt_generation = 0,
       completed = [], failed_tiers = [], retries = (\<lambda>l. 0) \<rparr>"

text \<open>Modelled from the spec: section 4.3, \<open>uploading \<rightarrow> processing\<close> when the Probe
  succeeds; its output fills duration, width, height and file size (section 4.1).\<close>

definition probe_succeeded :: "datetime \<Rightarrow> ProbeInfo \<Rightarrow> Ingestion \<Rightarrow> Ingestion" where
  "probe_succeeded now info s =
     s\<lparr>video := Video_save now ((video s)
          \<lparr>duration := Some (probe_duration info),
           width := Some (probe_width info),
           height := Some (probe_height info),
           file_size := Some (probe_file_size info),
           status := Status_value PROCESSING\<rparr>)\<rparr>"

text \<open>Modelled from the spec: section 4.3, a Probe failure goes to \<open>failed\<close> directly,
  with error\_message set to the probe error (section 7: verbatim).\<close>

definition probe_failed :: "datetime \<Rightarrow> string \<Rightarrow> Ingestion \<Rightarrow> Ingestion" where
  "probe_failed now msg s =
     s\<lparr>video := Video_save now ((video s)
          \<lparr>status := Status_value FAILED, error_message := msg\<rparr>)\<rparr>"

text \<open>Modelled from the spec: section 4.3, the write of the aggregate progress.\<close>

definition progress_written :: "datetime \<Rightarrow> int \<Rightarrow> Ingestion \<Rightarrow> Ingestion" where
  "progress_written now p s =
     s\<lparr>video := Video_save now ((video s)\<lparr>processing_progress := p\<rparr>)\<rparr>"

text \<open>Modelled from the spec: sections 3 and 4.2, a completed worker's descriptor becomes
  the VideoQuality row of this video and tier, through the insert of the schema (a pair
  that is already there stays as it is), and the tier counts as completed.\<close>

definition tier_completed :: "datetime \<Rightarrow> VideoQuality \<Rightarrow> Ingestion \<Rightarrow> Ingestion" where
  "tier_completed now r s =
     s\<lparr>qualities :=
          (case VideoQuality_insert (r\<lparr>vq_video := pk (video s), vq_created_at := now\<rparr>) (qualities s) of
             Inl e \<Rightarrow> qualities s
           | Inr tbl \<Rightarrow> tbl),
        completed := quality_name r # completed s\<rparr>"

text \<open>Modelled from the spec: section 8, the error\_message of a failed video summarizes
  the failing tiers (the wording of the summary is not given; the labels are listed).\<close>

definition failing_summary :: "string list \<Rightarrow> string" where
  "failing_summary ls = ''failed tiers:'' @ concat (map (\<lambda>l. '' '' @ l) ls)"

text \<open>Modelled from the spec: section 4.3, a tier is required when the configuration
  marks it so.\<close>

definition tier_required :: "Tier list \<Rightarrow> string \<Rightarrow> bool" where
  "tier_required cfg l = list_ex (\<lambda>t. tier_label t = l \<and> required t) cfg"

text \<open>Modelled from the spec: section 4.3, failure and retry policy. A worker that fails
  with StorageUnavailable is retried while it has retries left (\<open>n\<close>, default 3); any
  other failure, or one after the last retry, fails the tier for good. A required tier
  that failed for good makes success impossible: \<open>processing \<rightarrow> failed\<close>, with the summary
  of the failing tiers. An optional tier's failure alone never fails the video.\<close>

definition tier_failed :: "Tier list \<Rightarrow> nat \<Rightarrow> datetime \<Rightarrow> string \<Rightarrow> IngestError \<Rightarrow> Ingestion \<Rightarrow> Ingestion" where
  "tier_failed cfg n now l e s =
     (if e = StorageUnavailable \<and> retries s l < n
        then s\<lparr>retries := (retries s)(l := Suc (retries s l))\<rparr>
      else if tier_required cfg l
        then s\<lparr>failed_tiers := l # failed_tiers s,
               video := Video_save now ((video s)
                 \<lparr>status := Status_value FAILED,
                  error_message := failing_summary (l # failed_tiers s)\<rparr>)\<rparr>
      else s\<lparr>failed_tiers := l # failed_tiers s\<rparr>)"

text \<open>Modelled from the spec: section 4.3, all required tiers completed successfully.\<close>

definition all_required_completed :: "Tier list \<Rightarrow> Ingestion \<Rightarrow> bool" where
  "all_required_completed cfg s =
     list_all (\<lambda>t. tier_label t \<in> set (completed s)) (filter required cfg)"

text \<open>Modelled from the spec: section 4.3, \<open>processing \<rightarrow> ready\<close>; published\_at is stamped
  at this transition if the video's requested visibility is non-private.\<close>

definition finalize :: "datetime \<Rightarrow> Ingestion \<Rightarrow> Ingestion" where
  "finalize now s =
     s\<lparr>video := Video_save now
          (if visibility (video s) \<noteq> Visibility_value PRIVATE
           then (video s)\<lparr>status := Status_value READY, published_at := Some now\<rparr>
           else (video s)\<lparr>status := Status_value READY\<rparr>)\<rparr>"

text \<open>Modelled from the spec: sections 4.3 and 5, the resubmission of a failed video:
  back to \<open>processing\<close>, progress reset to 0, error\_message cleared, and a new attempt
  generation that fences the tasks of the attempt before.\<close>

definition resubmitted :: "datetime \<Rightarrow> Ingestion \<Rightarrow> Ingestion" where
  "resubmitted now s =
     s\<lparr>video := Video_save now ((video s)
          \<lparr>status := Status_value PROCESSING, processing_progress := 0, error_message := []\<rparr>),
        attempt_generation := Suc (attempt_generation s),
        completed := [], failed_tiers := [], retries := (\<lambda>l. 0)\<rparr>"

text \<open>Modelled from the spec: the guarded transitions of section 4.3, with the fence of
  section 5. A signal handled at time \<open>now\<close> gives the new state, or StaleAttempt when it
  carries an attempt generation that is not the current one (section 7: a discard
  signal). A signal that does not apply in the current status is a no-op: the state comes
  back as it is (sections 4.3 and 6: a duplicate signal is a no-op, not an error).\<close>

fun coordinator_step ::
  "Tier list \<Rightarrow> nat \<Rightarrow> datetime \<Rightarrow> Event \<Rightarrow> Ingestion \<Rightarrow> IngestError + Ingestion" where
  "coordinator_step cfg n now (UploadComplete outcome) s =
     (if status (video s) = Status_value UPLOADING
      then (case outcome of
              Inl (e, msg) \<Rightarrow> Inr (probe_failed now msg s)
            | Inr info \<Rightarrow> Inr (probe_succeeded now info s))
      else Inr s)"
| "coordinator_step cfg n now (ProgressWrite g p) s =
     (if g \<noteq> attempt_generation s then Inl StaleAttempt
      else if status (video s) = Status_value PROCESSING then Inr (progress_written now p s)
      else Inr s)"
| "coordinator_step cfg n now (TierCompleted g r) s =
     (if g \<noteq> attempt_generation s then Inl StaleAttempt
      else if status (video s) = Status_value PROCESSING then Inr (tier_completed now r s)
      else Inr s)"
| "coordinator_step cfg n now (TierFailed g l e) s =
     (if g \<noteq> attempt_generation s then Inl StaleAttempt
      else if status (video s) = Status_value PROCESSING then Inr (tier_failed cfg n now l e s)
      else Inr s)"
| "coordinator_step cfg n now (AllRequiredComplete g) s =
     (if g \<noteq> attempt_generation s then Inl StaleAttempt
      else if status (video s) = Status_value PROCESSING \<and> all_required_completed cfg s
        then Inr (finalize now s)
      else Inr s)"
| "coordinator_step cfg n now Resubmit s =
     (if status (video s) = Status_value FAILED then Inr (resubmitted now s) else Inr s)"

text \<open>Modelled from the spec: the signals of a video in the order the Coordinator handles
  them, each with its time (section 5: writes for one video are serialized); a discarded
  signal leaves the state as it is.\<close>

fun coordinator_run ::
  "Tier list \<Rightarrow> nat \<Rightarrow> (datetime \<times> Event) list \<Rightarrow> Ingestion \<Rightarrow> Ingestion" where
  "coordinator_run cfg n [] s = s"
| "coordinator_run cfg n ((now, ev) # evs) s =
     (case coordinator_step cfg n now ev s of
        Inl e \<Rightarrow> coordinator_run cfg n evs s
      | Inr s' \<Rightarrow> coordinator_run cfg n evs s')"

text \<open>Modelled from the spec: the transitions that the summary line of section 4.3 names,
  \<open>uploading \<rightarrow> processing \<rightarrow> {ready, failed}\<close> and \<open>failed \<rightarrow> processing\<close>.\<close>

definition summary_transition :: "string \<Rightarrow> string \<Rightarrow> bool" where
  "summary_transition a b =
     ((a, b) \<in> set [(''uploading'', ''processing''), (''processing'', ''ready''),
                    (''processing'', ''failed''), (''failed'', ''processing'')])"

text \<open>Modelled from the spec: the transitions of the list under section 4.3, which has
  the Probe failure \<open>uploading \<rightarrow> failed\<close> beside those of the summary line.\<close>

definition listed_transition :: "string \<Rightarrow> string \<Rightarrow> bool" where
  "listed_transition a b = (summary_transition a b \<or> (a, b) = (''uploading'', ''failed''))"


section \<open>Sample values\<close>

definition rendition :: "uuid \<Rightarrow> string \<Rightarrow> string \<Rightarrow> VideoQuality" where
  "rendition v q path =
     \<lparr> vq_id = 0, vq_video = v, quality_name = q, vq_width = 1280, vq_height = 720,
       bitrate = ''2500k'', file_path = path, hls_playlist_path = [],
       vq_file_size = None, vq_created_at = 0 \<rparr>"


definition entry :: "uuid \<Rightarrow> uuid \<Rightarrow> int \<Rightarrow> PlaylistVideo" where
  "entry p v n = \<lparr> pv_id = 0, playlist = p, pv_video = v, pv_order = n, added_at = 0 \<rparr>"


text \<open>Two tiers, one required, and a Probe result.\<close>

definition sample_tiers :: "Tier list" where
  "sample_tiers =
     [\<lparr>tier_label = ''480p'', tier_width = 854, tier_height = 480, tier_bitrate = 1000, required = True\<rparr>,
      \<lparr>tier_label = ''1080p'', tier_width = 1920, tier_height = 1080, tier_bitrate = 5000, required = False\<rparr>]"

definition sample_probe :: ProbeInfo where
  "sample_probe =
     \<lparr>probe_duration = 60, probe_width = 1280, probe_height = 720, container_valid = True,
      probe_file_size = 1000000\<rparr>"

text \<open>A video uploaded with no visibility given, and the same video uploaded as private.\<close>

definition sample_start :: Ingestion where
  "sample_start = ingest_start (Video_create 7 1 2 ''clip'' None) []"


text \<open>The first video probed, with its required tier completed; and the first video with
  its required tier failed for good after a progress write.\<close>

definition sample_processing :: Ingestion where
  "sample_processing =
     coordinator_run sample_tiers 3
       [(10, UploadComplete (Inr sample_probe)),
        (20, TierCompleted 0 (rendition 7 ''480p'' ''a.mp4''))] sample_start"

definition sample_failed :: Ingestion where
  "sample_failed =
     coordinator_run sample_tiers 3
       [(10, UploadComplete (Inr sample_probe)), (15, ProgressWrite 0 40),
        (18, TierFailed 0 ''480p'' EncodingFailed)] sample_start"


section \<open>Properties of the schema\<close>


lemma Visibility_choices_keys:
  "map fst Visibility_choices = [''public'', ''unlisted'', ''private'']"
  by (simp add: Visibility_choices_def)






text \<open>
  C9. A Video created without a visibility has visibility \<open>public\<close>, which is neither
  \<open>private\<close> nor \<open>unlisted\<close>, and which the field's validation accepts: the default
  meets the condition (visibility other than \<open>private\<close>) under which a video that
  becomes ready is published.
\<close>

theorem Video_visibility_default:
  "visibility (Video_create now i u t None) = ''public''
   \<and> visibility (Video_create now i u t None) = Visibility_value PUBLIC
   \<and> visibility (Video_create now i u t None) \<noteq> Visibility_value PRIVATE
   \<and> visibility (Video_create now i u t None) \<noteq> Visibility_value UNLISTED
   \<and> visibility_clean (visibility (Video_create now i u t None)) = Inr ''public''"
  by (simp add: Video_create_def visibility_clean_def CharField_clean_def Visibility_choices_def)

subsection \<open>unique\_together\<close>

lemma fold_max_ge: "(a::nat) \<le> fold max xs a \<and> (\<forall>x\<in>set xs. x \<le> fold max xs a)"
proof (induction xs arbitrary: a)
  case Nil
  show ?case by simp
next
  case (Cons y ys)
  have "max y a \<le> fold max ys (max y a)" using Cons.IH by blast
  moreover have "\<forall>x\<in>set ys. x \<le> fold max ys (max y a)" using Cons.IH by blast
  ultimately show ?case by auto
qed

lemma next_id_fresh: "next_id rid tbl \<notin> set (map rid tbl)"
proof
  assume "next_id rid tbl \<in> set (map rid tbl)"
  then have "next_id rid tbl \<le> fold max (map rid tbl) 0"
    using fold_max_ge [of 0 "map rid tbl"] by blast
  then show False by (simp add: next_id_def)
qed

lemma VideoQuality_insert_ok:
  assumes "VideoQuality_table_ok tbl" and "VideoQuality_insert r tbl = Inr tbl'"
  shows "VideoQuality_table_ok tbl'"
proof -
  from assms(2) have fresh: "VideoQuality_key r \<notin> set (map VideoQuality_key tbl)"
    and eq: "tbl' = tbl @ [r\<lparr>vq_id := next_id vq_id tbl\<rparr>]"
    by (auto simp: VideoQuality_insert_def split: if_splits)
  have k: "VideoQuality_key (r\<lparr>vq_id := next_id vq_id tbl\<rparr>) = VideoQuality_key r"
    by (simp add: VideoQuality_key_def)
  show ?thesis
    using assms(1) fresh next_id_fresh [of vq_id tbl] k
    by (simp add: eq VideoQuality_table_ok_def VideoQuality_unique_def unique_together_def)
qed

lemma update_rows:
  assumes "distinct (map vq_id tbl)" and "distinct (map VideoQuality_key tbl)"
    and "VideoQuality_key r \<notin> set (map VideoQuality_key (filter (\<lambda>x. vq_id x \<noteq> i) tbl))"
  shows "distinct (map VideoQuality_key (map (\<lambda>x. if vq_id x = i then r\<lparr>vq_id := i\<rparr> else x) tbl))
       \<and> set (map VideoQuality_key (map (\<lambda>x. if vq_id x = i then r\<lparr>vq_id := i\<rparr> else x) tbl))
            \<subseteq> insert (VideoQuality_key r) (set (map VideoQuality_key tbl))"
  using assms
proof (induction tbl)
  case Nil
  show ?case by simp
next
  case (Cons x xs)
  let ?f = "\<lambda>x. if vq_id x = i then r\<lparr>vq_id := i\<rparr> else x"
  have k: "VideoQuality_key (r\<lparr>vq_id := i\<rparr>) = VideoQuality_key r"
    by (simp add: VideoQuality_key_def)
  show ?case
  proof (cases "vq_id x = i")
    case True
    with Cons.prems(1) have "i \<notin> vq_id ` set xs" by simp
    then have "\<forall>y\<in>set xs. vq_id y \<noteq> i" by blast
    then have same: "map ?f xs = xs" and all: "filter (\<lambda>x. vq_id x \<noteq> i) xs = xs"
      by (simp_all add: map_idI)
    from Cons.prems(3) True all have "VideoQuality_key r \<notin> set (map VideoQuality_key xs)"
      by simp
    with Cons.prems(2) True same k show ?thesis by auto
  next
    case False
    from Cons.prems False have ih: "distinct (map VideoQuality_key (map ?f xs))"
      "set (map VideoQuality_key (map ?f xs)) \<subseteq> insert (VideoQuality_key r) (set (map VideoQuality_key xs))"
      using Cons.IH by auto
    from Cons.prems(3) False have "VideoQuality_key x \<noteq> VideoQuality_key r" by auto
    moreover from Cons.prems(2) have "VideoQuality_key x \<notin> set (map VideoQuality_key xs)" by simp
    ultimately have "VideoQuality_key x \<notin> set (map VideoQuality_key (map ?f xs))"
      using ih(2) by blast
    with ih False show ?thesis by auto
  qed
qed

lemma VideoQuality_update_ok:
  assumes "VideoQuality_table_ok tbl" and "VideoQuality_update i r tbl = Inr tbl'"
  shows "VideoQuality_table_ok tbl'"
proof -
  let ?f = "\<lambda>x. if vq_id x = i then r\<lparr>vq_id := i\<rparr> else x"
  from assms(2) have fresh: "VideoQuality_key r \<notin> set (map VideoQuality_key (filter (\<lambda>x. vq_id x \<noteq> i) tbl))"
    and eq: "tbl' = map ?f tbl"
    by (auto simp: VideoQuality_update_def split: if_splits)
  have ids: "map vq_id (map ?f tbl) = map vq_id tbl" by (induction tbl) auto
  from assms(1) have d: "distinct (map vq_id tbl)" "distinct (map VideoQuality_key tbl)"
    by (simp_all add: VideoQuality_table_ok_def VideoQuality_unique_def unique_together_def)
  from d(1) ids have "distinct (map vq_id tbl')" by (simp only: eq)
  moreover from update_rows [OF d fresh] have "distinct (map VideoQuality_key tbl')"
    by (simp only: eq)
  ultimately show ?thesis
    by (simp only: VideoQuality_table_ok_def VideoQuality_unique_def unique_together_def simp_thms)
qed

lemma VideoQuality_filter_ok:
  "VideoQuality_table_ok tbl \<Longrightarrow> VideoQuality_table_ok (filter P tbl)"
  by (simp add: VideoQuality_table_ok_def VideoQuality_unique_def unique_together_def distinct_map_filter)

lemma VideoQuality_execute_ok:
  "VideoQuality_table_ok tbl \<Longrightarrow> VideoQuality_execute st tbl = Inr tbl' \<Longrightarrow> VideoQuality_table_ok tbl'"
  by (cases st)
     (auto simp: VideoQuality_delete_def VideoQuality_cascade_def
           intro: VideoQuality_insert_ok VideoQuality_update_ok VideoQuality_filter_ok)

lemma VideoQuality_run_ok:
  "VideoQuality_table_ok tbl \<Longrightarrow> VideoQuality_table_ok (VideoQuality_run sts tbl)"
proof (induction sts arbitrary: tbl)
  case Nil
  then show ?case by simp
next
  case (Cons st sts)
  show ?case
  proof (cases "VideoQuality_execute st tbl")
    case (Inl e)
    with Cons show ?thesis by simp
  next
    case (Inr tbl')
    with Cons.prems have "VideoQuality_table_ok tbl'" by (rule_tac VideoQuality_execute_ok)
    with Cons.IH Inr show ?thesis by simp
  qed
qed

lemma unique_together_count:
  "unique_together key tbl \<Longrightarrow> length (filter (\<lambda>r. key r = k) tbl) \<le> 1"
proof (induction tbl)
  case Nil
  show ?case by simp
next
  case (Cons x xs)
  then have d: "key x \<notin> set (map key xs)" and u: "unique_together key xs"
    by (simp_all add: unique_together_def)
  show ?case
  proof (cases "key x = k")
    case True
    with d have "k \<notin> key ` set xs" by simp
    then have "filter (\<lambda>r. key r = k) xs = []"
      unfolding filter_empty_conv by blast
    with True show ?thesis by simp
  next
    case False
    with Cons.IH [OF u] show ?thesis by simp
  qed
qed

text \<open>
  C4. Starting from a table of VideoQuality rows in which the pair (video, quality\_name)
  is unique, any sequence of inserts, updates, deletes and cascades, in any order (so any
  interleaving of the statements of retried workers completing the same tier), leaves
  the pair unique: for every video and quality name there is at most one row.
\<close>

theorem VideoQuality_unique_preserved:
  assumes "VideoQuality_table_ok tbl"
  shows "VideoQuality_table_ok (VideoQuality_run sts tbl)
       \<and> VideoQuality_unique (VideoQuality_run sts tbl)
       \<and> length (filter (\<lambda>r. vq_video r = v \<and> quality_name r = q) (VideoQuality_run sts tbl)) \<le> 1"
proof -
  have ok: "VideoQuality_table_ok (VideoQuality_run sts tbl)"
    using assms by (rule VideoQuality_run_ok)
  then have u: "VideoQuality_unique (VideoQuality_run sts tbl)"
    by (simp add: VideoQuality_table_ok_def)
  then have "length (filter (\<lambda>r. VideoQuality_key r = (v, q)) (VideoQuality_run sts tbl)) \<le> 1"
    unfolding VideoQuality_unique_def by (rule unique_together_count)
  then have "length (filter (\<lambda>r. vq_video r = v \<and> quality_name r = q) (VideoQuality_run sts tbl)) \<le> 1"
    by (simp add: VideoQuality_key_def)
  with ok u show ?thesis by simp
qed

theorem VideoQuality_unique_preserved_witness:
  "VideoQuality_table_ok []
   \<and> VideoQuality_insert (rendition 1 ''720p'' ''b.mp4'')
        (VideoQuality_run [Insert (rendition 1 ''720p'' ''a.mp4'')] []) = Inl IntegrityError
   \<and> map VideoQuality_key
        (VideoQuality_run [Insert (rendition 1 ''720p'' ''a.mp4''),
                           Insert (rendition 1 ''720p'' ''b.mp4''),
                           Insert (rendition 1 ''480p'' ''c.mp4'')] [])
      = [(1, ''720p''), (1, ''480p'')]
   \<and> length (filter (\<lambda>r. vq_video r = 1 \<and> quality_name r = ''720p'')
        (VideoQuality_run [Insert (rendition 1 ''720p'' ''a.mp4''),
                           Insert (rendition 1 ''720p'' ''b.mp4''),
                           Insert (rendition 1 ''480p'' ''c.mp4'')] [])) \<le> 1"
proof -
  have e: "VideoQuality_table_ok []"
    by (simp add: VideoQuality_table_ok_def VideoQuality_unique_def unique_together_def)
  have d: "VideoQuality_insert (rendition 1 ''720p'' ''b.mp4'')
        (VideoQuality_run [Insert (rendition 1 ''720p'' ''a.mp4'')] []) = Inl IntegrityError"
    by (simp add: VideoQuality_insert_def VideoQuality_key_def rendition_def)
  have k: "map VideoQuality_key
        (VideoQuality_run [Insert (rendition 1 ''720p'' ''a.mp4''),
                           Insert (rendition 1 ''720p'' ''b.mp4''),
                           Insert (rendition 1 ''480p'' ''c.mp4'')] [])
      = [(1, ''720p''), (1, ''480p'')]"
    by (simp add: VideoQuality_insert_def VideoQuality_key_def rendition_def)
  from VideoQuality_unique_preserved [OF e, of
      "[Insert (rendition 1 ''720p'' ''a.mp4''), Insert (rendition 1 ''720p'' ''b.mp4''),
        Insert (rendition 1 ''480p'' ''c.mp4'')]" 1 "''720p''"] e d k
  show ?thesis by blast
qed

lemma PlaylistVideo_insert_unique:
  assumes "PlaylistVideo_unique tbl" and "PlaylistVideo_insert r tbl = Inr tbl'"
  shows "PlaylistVideo_unique tbl'"
proof -
  from assms(2) have fresh: "PlaylistVideo_key r \<notin> set (map PlaylistVideo_key tbl)"
    and eq: "tbl' = tbl @ [r\<lparr>pv_id := next_id pv_id tbl\<rparr>]"
    by (auto simp: PlaylistVideo_insert_def split: if_splits)
  have "PlaylistVideo_key (r\<lparr>pv_id := next_id pv_id tbl\<rparr>) = PlaylistVideo_key r"
    by (simp add: PlaylistVideo_key_def)
  with assms(1) fresh show ?thesis
    by (simp add: eq PlaylistVideo_unique_def unique_together_def)
qed

lemma PlaylistVideo_insert_all_unique:
  "PlaylistVideo_unique tbl \<Longrightarrow> PlaylistVideo_unique (PlaylistVideo_insert_all rs tbl)"
proof (induction rs arbitrary: tbl)
  case Nil
  then show ?case by simp
next
  case (Cons r rs)
  show ?case
  proof (cases "PlaylistVideo_insert r tbl")
    case (Inl e)
    with Cons show ?thesis by simp
  next
    case (Inr tbl')
    with Cons.prems have "PlaylistVideo_unique tbl'"
      by (rule_tac PlaylistVideo_insert_unique)
    with Cons.IH Inr show ?thesis by simp
  qed
qed

text \<open>
  C10. Starting from a table of PlaylistVideo rows in which the pair (playlist, video) is
  unique, every insertion keeps it unique: an insert of a pair that is already there
  fails with IntegrityError, an insert that succeeds and any sequence of inserts leave at
  most one row for every playlist and video.
\<close>

theorem PlaylistVideo_unique_preserved:
  assumes "PlaylistVideo_unique tbl"
  shows "(PlaylistVideo_key r \<in> set (map PlaylistVideo_key tbl)
            \<longrightarrow> PlaylistVideo_insert r tbl = Inl IntegrityError)
       \<and> (PlaylistVideo_insert r tbl = Inr tbl' \<longrightarrow> PlaylistVideo_unique tbl')
       \<and> PlaylistVideo_unique (PlaylistVideo_insert_all rs tbl)
       \<and> length (filter (\<lambda>x. playlist x = p \<and> pv_video x = v) (PlaylistVideo_insert_all rs tbl)) \<le> 1"
proof -
  have a: "PlaylistVideo_key r \<in> set (map PlaylistVideo_key tbl)
            \<longrightarrow> PlaylistVideo_insert r tbl = Inl IntegrityError"
    by (simp add: PlaylistVideo_insert_def)
  have b: "PlaylistVideo_insert r tbl = Inr tbl' \<longrightarrow> PlaylistVideo_unique tbl'"
    using assms PlaylistVideo_insert_unique by blast
  have c: "PlaylistVideo_unique (PlaylistVideo_insert_all rs tbl)"
    using assms by (rule PlaylistVideo_insert_all_unique)
  then have "length (filter (\<lambda>x. PlaylistVideo_key x = (p, v)) (PlaylistVideo_insert_all rs tbl)) \<le> 1"
    unfolding PlaylistVideo_unique_def by (rule unique_together_count)
  then have d: "length (filter (\<lambda>x. playlist x = p \<and> pv_video x = v) (PlaylistVideo_insert_all rs tbl)) \<le> 1"
    by (simp add: PlaylistVideo_key_def)
  from a b c d show ?thesis by blast
qed

theorem PlaylistVideo_unique_preserved_witness:
  "PlaylistVideo_unique []
   \<and> PlaylistVideo_insert (entry 5 9 0) [] = Inr [(entry 5 9 0)\<lparr>pv_id := 1\<rparr>]
   \<and> PlaylistVideo_unique [(entry 5 9 0)\<lparr>pv_id := 1\<rparr>]
   \<and> PlaylistVideo_insert (entry 5 9 3) [(entry 5 9 0)\<lparr>pv_id := 1\<rparr>] = Inl IntegrityError
   \<and> map PlaylistVideo_key (PlaylistVideo_insert_all [entry 5 9 0, entry 5 9 3, entry 5 8 1] [])
       = [(5, 9), (5, 8)]
   \<and> length (filter (\<lambda>x. playlist x = 5 \<and> pv_video x = 9)
        (PlaylistVideo_insert_all [entry 5 9 0, entry 5 9 3, entry 5 8 1] [])) \<le> 1"
proof -
  have e: "PlaylistVideo_unique []"
    by (simp add: PlaylistVideo_unique_def unique_together_def)
  have i: "PlaylistVideo_insert (entry 5 9 0) [] = Inr [(entry 5 9 0)\<lparr>pv_id := 1\<rparr>]"
    by (simp add: PlaylistVideo_insert_def next_id_def)
  have d: "PlaylistVideo_insert (entry 5 9 3) [(entry 5 9 0)\<lparr>pv_id := 1\<rparr>] = Inl IntegrityError"
    by (simp add: PlaylistVideo_insert_def PlaylistVideo_key_def entry_def)
  have k: "map PlaylistVideo_key (PlaylistVideo_insert_all [entry 5 9 0, entry 5 9 3, entry 5 8 1] [])
       = [(5, 9), (5, 8)]"
    by (simp add: PlaylistVideo_insert_def PlaylistVideo_key_def entry_def)
  from PlaylistVideo_unique_preserved [OF e, of "entry 5 9 0" "[(entry 5 9 0)\<lparr>pv_id := 1\<rparr>]"
      "[entry 5 9 0, entry 5 9 3, entry 5 8 1]" 5 9] e i d k
  show ?thesis by blast
qed

subsection \<open>The range of processing\_progress\<close>




section \<open>Properties of the Coordinator\<close>


subsection \<open>What a step writes\<close>

lemma video_after:
  "video (probe_succeeded now info s) = Video_save now ((video s)
          \<lparr>duration := Some (probe_duration info),
           width := Some (probe_width info),
           height := Some (probe_height info),
           file_size := Some (probe_file_size info),
           status := Status_value PROCESSING\<rparr>)"
  "video (probe_failed now msg s) = Video_save now ((video s)
          \<lparr>status := Status_value FAILED, error_message := msg\<rparr>)"
  "video (progress_written now p s) = Video_save now ((video s)\<lparr>processing_progress := p\<rparr>)"
  "video (tier_completed now r s) = video s"
  "video (finalize now s) = Video_save now
          (if visibility (video s) \<noteq> Visibility_value PRIVATE
           then (video s)\<lparr>status := Status_value READY, published_at := Some now\<rparr>
           else (video s)\<lparr>status := Status_value READY\<rparr>)"
  "video (resubmitted now s) = Video_save now ((video s)
          \<lparr>status := Status_value PROCESSING, processing_progress := 0, error_message := []\<rparr>)"
  "video (tier_failed cfg n now l e s) =
     (if e = StorageUnavailable \<and> retries s l < n then video s
      else if tier_required cfg l
        then Video_save now ((video s)\<lparr>status := Status_value FAILED,
                  error_message := failing_summary (l # failed_tiers s)\<rparr>)
      else video s)"
  by (simp_all add: probe_succeeded_def probe_failed_def progress_written_def tier_completed_def
      finalize_def resubmitted_def tier_failed_def)

lemma qualities_after:
  "qualities (probe_succeeded now info s) = qualities s"
  "qualities (probe_failed now msg s) = qualities s"
  "qualities (progress_written now p s) = qualities s"
  "qualities (finalize now s) = qualities s"
  "qualities (resubmitted now s) = qualities s"
  "qualities (tier_failed cfg n now l e s) = qualities s"
  by (simp_all add: probe_succeeded_def probe_failed_def progress_written_def
      finalize_def resubmitted_def tier_failed_def)

lemma step_cases:
  assumes "coordinator_step cfg n now ev s = Inr s'"
  shows "s' = s
    \<or> (status (video s) = ''uploading'' \<and> (\<exists>e msg. ev = UploadComplete (Inl (e, msg)) \<and> s' = probe_failed now msg s))
    \<or> (status (video s) = ''uploading'' \<and> (\<exists>info. ev = UploadComplete (Inr info) \<and> s' = probe_succeeded now info s))
    \<or> (status (video s) = ''processing'' \<and> (\<exists>g p. ev = ProgressWrite g p \<and> s' = progress_written now p s))
    \<or> (status (video s) = ''processing'' \<and> (\<exists>g r. ev = TierCompleted g r \<and> s' = tier_completed now r s))
    \<or> (status (video s) = ''processing'' \<and> (\<exists>g l e. ev = TierFailed g l e \<and> s' = tier_failed cfg n now l e s))
    \<or> (status (video s) = ''processing'' \<and> ev = AllRequiredComplete (attempt_generation s) \<and> s' = finalize now s)
    \<or> (status (video s) = ''failed'' \<and> ev = Resubmit \<and> s' = resubmitted now s)"
  using assms
  by (cases ev) (auto split: if_splits sum.splits prod.splits)

lemma step_status:
  assumes "coordinator_step cfg n now ev s = Inr s'"
  shows "status (video s') = status (video s)
    \<or> (status (video s) = ''uploading'' \<and> status (video s') = ''failed'' \<and> (\<exists>e msg. ev = UploadComplete (Inl (e, msg))))
    \<or> (status (video s) = ''uploading'' \<and> status (video s') = ''processing'')
    \<or> (status (video s) = ''processing'' \<and> status (video s') = ''failed'')
    \<or> (status (video s) = ''processing'' \<and> status (video s') = ''ready'')
    \<or> (status (video s) = ''failed'' \<and> status (video s') = ''processing'' \<and> ev = Resubmit
          \<and> processing_progress (video s') = 0 \<and> error_message (video s') = [])"
  using step_cases [OF assms]
  by (elim disjE exE conjE) (simp_all add: video_after Video_save_def)



lemma run_induct:
  assumes "P s"
    and "\<And>now ev a b. P a \<Longrightarrow> (now, ev) \<in> set evs \<Longrightarrow> coordinator_step cfg n now ev a = Inr b \<Longrightarrow> P b"
  shows "P (coordinator_run cfg n evs s)"
  using assms
proof (induction evs arbitrary: s)
  case Nil
  then show ?case by simp
next
  case (Cons x evs)
  obtain now ev where x: "x = (now, ev)" by (cases x)
  have later: "\<And>now ev a b. P a \<Longrightarrow> (now, ev) \<in> set evs
      \<Longrightarrow> coordinator_step cfg n now ev a = Inr b \<Longrightarrow> P b"
    using Cons.prems(2) by (meson list.set_intros(2))
  show ?case
  proof (cases "coordinator_step cfg n now ev s")
    case (Inl e)
    with Cons.IH [OF Cons.prems(1) later] x show ?thesis by simp
  next
    case (Inr b)
    have "(now, ev) \<in> set (x # evs)" using x by simp
    from Cons.prems(2) [OF Cons.prems(1) this Inr] have "P b" .
    from Cons.IH [OF this later] x Inr show ?thesis by simp
  qed
qed


lemma sample_failed_fields:
  "status (video sample_failed) = ''failed''"
  "processing_progress (video sample_failed) = 40"
  "error_message (video sample_failed) = ''failed tiers: 480p''"
  by (simp_all add: sample_failed_def sample_start_def ingest_start_def Video_create_def
      sample_tiers_def Video_save_def progress_written_def probe_succeeded_def
      tier_failed_def tier_required_def failing_summary_def)

lemma sample_processing_fields:
  "status (video sample_processing) = ''processing''"
  "visibility (video sample_processing) = ''public''"
  "published_at (video sample_processing) = None"
  "attempt_generation sample_processing = 0"
  "completed sample_processing = [''480p'']"
  "map VideoQuality_key (qualities sample_processing) = [(1, ''480p'')]"
  by (simp_all add: sample_processing_def sample_start_def ingest_start_def Video_create_def
      probe_succeeded_def tier_completed_def Video_save_def VideoQuality_insert_def
      VideoQuality_key_def rendition_def)

lemma sample_all_required: "all_required_completed sample_tiers sample_processing"
  by (simp add: all_required_completed_def sample_tiers_def sample_processing_fields)

lemma sample_finalize_step:
  "coordinator_step sample_tiers 3 30 (AllRequiredComplete 0) sample_processing
     = Inr (finalize 30 sample_processing)"
  by (simp add: sample_processing_fields sample_all_required)

subsection \<open>Status transitions\<close>

text \<open>
  C1, as amended. A signal that the Coordinator handles leaves the status as it is or takes
  one of the listed transitions: \<open>uploading \<rightarrow> processing\<close>, \<open>uploading \<rightarrow> failed\<close> (the Probe
  failed), \<open>processing \<rightarrow> ready\<close>, \<open>processing \<rightarrow> failed\<close>, \<open>failed \<rightarrow> processing\<close>. The status
  \<open>ready\<close> is never left; \<open>failed\<close> is left only by a resubmission, which goes to
  \<open>processing\<close> with processing\_progress reset to 0 and error\_message cleared;
  \<open>uploading \<rightarrow> failed\<close> is taken only on a Probe failure.
\<close>

theorem status_transitions:
  assumes "coordinator_step cfg n now ev s = Inr s'"
  shows "(status (video s') = status (video s)
            \<or> listed_transition (status (video s)) (status (video s')))
       \<and> (status (video s) = ''ready'' \<longrightarrow> status (video s') = ''ready'')
       \<and> (status (video s) = ''failed'' \<and> status (video s') \<noteq> ''failed''
            \<longrightarrow> ev = Resubmit \<and> status (video s') = ''processing''
                \<and> processing_progress (video s') = 0 \<and> error_message (video s') = [])
       \<and> (status (video s) = ''uploading'' \<and> status (video s') = ''failed''
            \<longrightarrow> (\<exists>e msg. ev = UploadComplete (Inl (e, msg))))"
  using step_status [OF assms]
  by (elim disjE conjE) (auto simp: listed_transition_def summary_transition_def)

text \<open>A video whose required tier failed at progress 40 is resubmitted.\<close>

theorem status_transitions_witness:
  "coordinator_step sample_tiers 3 20 Resubmit sample_failed = Inr (resubmitted 20 sample_failed)
   \<and> status (video sample_failed) = ''failed''
   \<and> processing_progress (video sample_failed) = 40
   \<and> error_message (video sample_failed) = ''failed tiers: 480p''
   \<and> status (video (resubmitted 20 sample_failed)) = ''processing''
   \<and> processing_progress (video (resubmitted 20 sample_failed)) = 0
   \<and> error_message (video (resubmitted 20 sample_failed)) = []"
proof -
  have b: "coordinator_step sample_tiers 3 20 Resubmit sample_failed = Inr (resubmitted 20 sample_failed)"
    by (simp add: sample_failed_fields)
  have d: "status (video (resubmitted 20 sample_failed)) \<noteq> ''failed''"
    by (simp add: video_after Video_save_def)
  from status_transitions [OF b] sample_failed_fields d show ?thesis using b by simp
qed

text \<open>
  C1 as stated names the transitions of the summary line only. A Probe failure on a new
  video takes \<open>uploading \<rightarrow> failed\<close>, which is not one of them.
\<close>

theorem status_transitions_counterexample:
  "coordinator_step sample_tiers 3 10 (UploadComplete (Inl (UnsupportedFormat, ''corrupt''))) sample_start
     = Inr (probe_failed 10 ''corrupt'' sample_start)
   \<and> status (video sample_start) = ''uploading''
   \<and> status (video (probe_failed 10 ''corrupt'' sample_start)) = ''failed''
   \<and> status (video (probe_failed 10 ''corrupt'' sample_start)) \<noteq> status (video sample_start)
   \<and> \<not> summary_transition (status (video sample_start))
         (status (video (probe_failed 10 ''corrupt'' sample_start)))"
  by (simp add: sample_start_def ingest_start_def Video_create_def video_after Video_save_def
      summary_transition_def)

subsection \<open>published\_at\<close>









subsection \<open>Finalization\<close>

text \<open>
  C5. When the signal that all required tiers are complete has been handled, handling it
  again, at any later time and any number of times, gives back the same state and no
  error: published\_at, updated\_at and the renditions are as the first handling left them.
  On a video that is already ready the signal changes nothing.
\<close>

theorem finalization_idempotent:
  assumes "coordinator_step cfg n t1 (AllRequiredComplete g) s = Inr s'"
  shows "coordinator_step cfg n t2 (AllRequiredComplete g) s' = Inr s'
       \<and> coordinator_run cfg n (map (\<lambda>t. (t, AllRequiredComplete g)) ts) s' = s'
       \<and> (status (video s) = ''ready'' \<longrightarrow> s' = s)"
proof -
  have again: "coordinator_step cfg n t (AllRequiredComplete g) s' = Inr s'" for t
  proof (cases "status (video s) = ''processing'' \<and> all_required_completed cfg s")
    case True
    with assms have "g = attempt_generation s" and "s' = finalize t1 s"
      by (auto split: if_splits)
    then have "attempt_generation s' = g" and "status (video s') = ''ready''"
      by (simp_all add: finalize_def Video_save_def)
    then show ?thesis by simp
  next
    case False
    with assms have "g = attempt_generation s" and "s' = s"
      by (auto split: if_splits)
    with False show ?thesis by auto
  qed
  have "coordinator_run cfg n (map (\<lambda>t. (t, AllRequiredComplete g)) ts) s' = s'"
    by (induction ts) (simp_all add: again del: coordinator_step.simps)
  moreover have "status (video s) = ''ready'' \<longrightarrow> s' = s"
    using assms by (auto split: if_splits)
  ultimately show ?thesis using again by blast
qed

text \<open>The signal at time 30 finalizes the sample video; the signal again at time 40 is a
  no-op, and published\_at and updated\_at stay 30.\<close>

theorem finalization_idempotent_witness:
  "coordinator_step sample_tiers 3 30 (AllRequiredComplete 0) sample_processing
     = Inr (finalize 30 sample_processing)
   \<and> coordinator_step sample_tiers 3 40 (AllRequiredComplete 0) (finalize 30 sample_processing)
     = Inr (finalize 30 sample_processing)
   \<and> published_at (video (finalize 30 sample_processing)) = Some 30
   \<and> updated_at (video (finalize 30 sample_processing)) = 30"
proof -
  from finalization_idempotent [OF sample_finalize_step, of 40 "[]"] sample_finalize_step
  show ?thesis by (simp add: video_after Video_save_def sample_processing_fields)
qed

subsection \<open>Probe failure\<close>

lemma failed_step:
  assumes "status (video a) = ''failed''" and "ev \<noteq> Resubmit"
    and "coordinator_step cfg n now ev a = Inr b"
  shows "status (video b) = ''failed'' \<and> qualities b = qualities a
       \<and> processing_progress (video b) = processing_progress (video a)
       \<and> error_message (video b) = error_message (video a)"
  using step_cases [OF assms(3)] assms(1,2)
  by (elim disjE exE conjE) (simp_all add: video_after qualities_after Video_save_def)

text \<open>
  C6. When the Probe fails on a newly created Video, the upload-complete signal takes
  the status from \<open>uploading\<close> to \<open>failed\<close> in one step, error\_message is the probe error,
  the table of renditions is as it was and processing\_progress is 0; and whatever
  signals follow, short of a resubmission, the status stays \<open>failed\<close>, no rendition is
  created and processing\_progress stays 0.
\<close>

theorem probe_failure:
  assumes "s = ingest_start (Video_create t0 i u ttl vis) tbl"
  shows "status (video s) = ''uploading''
       \<and> coordinator_step cfg n now (UploadComplete (Inl (e, msg))) s = Inr (probe_failed now msg s)
       \<and> status (video (probe_failed now msg s)) = ''failed''
       \<and> error_message (video (probe_failed now msg s)) = msg
       \<and> qualities (probe_failed now msg s) = tbl
       \<and> processing_progress (video (probe_failed now msg s)) = 0
       \<and> (Resubmit \<notin> set (map snd evs)
            \<longrightarrow> status (video (coordinator_run cfg n evs (probe_failed now msg s))) = ''failed''
              \<and> error_message (video (coordinator_run cfg n evs (probe_failed now msg s))) = msg
              \<and> qualities (coordinator_run cfg n evs (probe_failed now msg s)) = tbl
              \<and> processing_progress (video (coordinator_run cfg n evs (probe_failed now msg s))) = 0)"
proof -
  let ?P = "\<lambda>a. status (video a) = ''failed'' \<and> error_message (video a) = msg
              \<and> qualities a = tbl \<and> processing_progress (video a) = 0"
  have f: "?P (probe_failed now msg s)"
    by (simp add: assms ingest_start_def Video_create_def probe_failed_def Video_save_def)
  have later: "?P (coordinator_run cfg n evs (probe_failed now msg s))"
    if no: "Resubmit \<notin> set (map snd evs)"
  proof (rule run_induct)
    show "?P (probe_failed now msg s)" by (rule f)
  next
    fix t ev a b
    assume a: "?P a" and m: "(t, ev) \<in> set evs" and st: "coordinator_step cfg n t ev a = Inr b"
    from m no have "ev \<noteq> Resubmit" by force
    with failed_step [OF _ _ st] a show "?P b" by simp
  qed
  have "status (video s) = ''uploading''"
    by (simp add: assms ingest_start_def Video_create_def)
  moreover from this
  have "coordinator_step cfg n now (UploadComplete (Inl (e, msg))) s = Inr (probe_failed now msg s)"
    by simp
  ultimately show ?thesis using f later by blast
qed

text \<open>A corrupt file, followed by stray worker signals.\<close>

theorem probe_failure_witness:
  "coordinator_step sample_tiers 3 10 (UploadComplete (Inl (UnsupportedFormat, ''corrupt''))) sample_start
     = Inr (probe_failed 10 ''corrupt'' sample_start)
   \<and> status (video sample_start) = ''uploading''
   \<and> status (video (probe_failed 10 ''corrupt'' sample_start)) = ''failed''
   \<and> error_message (video (probe_failed 10 ''corrupt'' sample_start)) = ''corrupt''
   \<and> qualities (probe_failed 10 ''corrupt'' sample_start) = []
   \<and> processing_progress (video (probe_failed 10 ''corrupt'' sample_start)) = 0
   \<and> qualities (coordinator_run sample_tiers 3
        [(11, ProgressWrite 0 50), (12, TierCompleted 0 (rendition 7 ''480p'' ''a.mp4'')),
         (13, AllRequiredComplete 0)] (probe_failed 10 ''corrupt'' sample_start)) = []
   \<and> processing_progress (video (coordinator_run sample_tiers 3
        [(11, ProgressWrite 0 50), (12, TierCompleted 0 (rendition 7 ''480p'' ''a.mp4'')),
         (13, AllRequiredComplete 0)] (probe_failed 10 ''corrupt'' sample_start))) = 0"
proof -
  have r: "sample_start = ingest_start (Video_create 7 1 2 ''clip'' None) []"
    by (simp only: sample_start_def)
  have ev: "Resubmit \<notin> set (map snd [(11::nat, ProgressWrite 0 50),
      (12, TierCompleted 0 (rendition 7 ''480p'' ''a.mp4'')), (13, AllRequiredComplete 0)])"
    by simp
  from probe_failure [OF r, of sample_tiers 3 10 UnsupportedFormat "''corrupt''"
      "[(11, ProgressWrite 0 50), (12, TierCompleted 0 (rendition 7 ''480p'' ''a.mp4'')),
        (13, AllRequiredComplete 0)]"] ev
  show ?thesis by blast
qed

end
